theory Spec2Isabelle
  imports Complex_Main
begin

section \<open>Data model of drive.py\<close>

text \<open>
  Python floats are modelled by their mathematical values (\<^typ>\<open>real\<close>); rounding of
  IEEE doubles is not part of the model. Every effect of the script on the outside world
  (library import, console, serial transport, camera queue, vision toolbox, display) is
  recorded, in program order, as an event appended to a log.
\<close>

record 'p image =
  shape0 :: nat
  shape1 :: nat
  pixels :: 'p

text \<open>What \<open>print\<close> is given: string literals, an exception object, a number.\<close>

datatype 'x printable = PStr string | PErr 'x | PNum real

datatype ('p, 'l, 'x) event =
    Import_pyvesc
  | Print "'x printable list"
  | Sleep real
  | VESC_open string bool bool int real
  | Set_servo real
  | Set_duty_cycle real
  | Camera_setup
  | Queue_get "'p image"
  | Yellow_segmentation "'p image"
  | Lane_detection "'p image"
  | Steering_command "'l option" nat
  | Add_weighted "'p image" "'p image"
  | Resize
  | Imshow
  | Wait_key int
  | Destroy_all_windows

type_synonym ('p, 'l, 'x) world = "('p, 'l, 'x) event list"

text \<open>
  Exceptions: the \<open>assert\<close> of \<open>VESC.__init__\<close> raises \<open>AssertionError\<close>; every other
  exception comes out of a library call and is carried as an opaque value.
\<close>

datatype 'x exn = AssertionError string | Library 'x

text \<open>
  The collaborators the script calls. \<open>import_pyvesc\<close> is \<open>None\<close> when
  \<open>import pyvesc\<close> succeeds and \<open>Some err\<close> when it raises \<open>err\<close>; \<open>pyvesc_VESC\<close> likewise
  for opening the serial transport. \<open>qRgb_get n\<close> is the frame the \<open>n\<close>-th blocking
  \<open>qRgb.get()\<close> delivers and \<open>waitKey n\<close> the key code the \<open>n\<close>-th \<open>cv2.waitKey(1)\<close>
  returns. The three functions of module \<open>toolbox\<close> return a value or raise.
\<close>

record ('p, 'l, 'x) env =
  import_pyvesc :: "'x option"
  pyvesc_VESC :: "string \<Rightarrow> bool \<Rightarrow> bool \<Rightarrow> int \<Rightarrow> real \<Rightarrow> 'x option"
  qRgb_get :: "nat \<Rightarrow> 'p image"
  run_yellow_segmentation_pipeline :: "'p image \<Rightarrow> 'x + ('p image \<times> 'l option)"
  run_lane_detection_pipeline :: "'p image \<Rightarrow> 'x + ('p image \<times> 'l option)"
  steering_command :: "'l option \<Rightarrow> nat \<Rightarrow> 'x + real"
  waitKey :: "nat \<Rightarrow> int"

text \<open>
  A \<open>VESC\<close> object: the three attributes set by \<open>__init__\<close> and the transport handle
  \<open>self.v\<close>, identified by the serial port it was opened on.
\<close>

record VESC =
  steering_scale :: real
  steering_offset :: real
  percent :: real
  v :: string

definition THROTTLE :: real where
  "THROTTLE = 0.15"

section \<open>class VESC\<close>

definition percent_message :: string where
  "percent_message =
     [CHR 0x0A, CHR 0x0A] @ ''Only percentages are allowed for MAX_VESC_SPEED (we recommend a value of about .2) (negative values flip direction of motor)''"

definition nl :: "nat \<Rightarrow> string" where
  "nl n = replicate n (CHR 0x0A)"

text \<open>The \<open>except\<close> block around \<open>import pyvesc\<close>: five prints and a one second sleep.\<close>

definition import_failure_report :: "'x \<Rightarrow> ('p, 'l, 'x) world" where
  "import_failure_report err =
     [Print [PStr (nl 4), PErr err, PStr (nl 1)],
      Print [PStr ''please use the following command to import pyvesc so that you can also set''],
      Print [PStr ''the servo position:''],
      Print [PStr ''pip install git+https://github.com/LiamBindle/PyVESC.git@master''],
      Print [PStr (nl 3)],
      Sleep 1]"

text \<open>The \<open>except\<close> block around \<open>pyvesc.VESC(...)\<close>.\<close>

definition open_failure_report :: "string \<Rightarrow> 'x \<Rightarrow> ('p, 'l, 'x) world" where
  "open_failure_report serial_port err =
     [Print [PStr (nl 4), PErr err],
      Print [PStr (nl 2 @ ''to fix permission denied errors, try running the following command:'')],
      Print [PStr (''sudo chmod a+rw '' @ serial_port), PStr (nl 4)],
      Sleep 1]"

text \<open>
  \<open>VESC.__init__\<close>. The result is the exception raised or the constructed object, together
  with the log extended by what the constructor did.
\<close>

definition VESC_init ::
  "('p, 'l, 'x) env \<Rightarrow> string \<Rightarrow> real \<Rightarrow> bool \<Rightarrow> bool \<Rightarrow> int \<Rightarrow> real \<Rightarrow> real \<Rightarrow> real \<Rightarrow>
   ('p, 'l, 'x) world \<Rightarrow> ('x exn + VESC) \<times> ('p, 'l, 'x) world" where
  "VESC_init e serial_port percent' has_sensor start_heartbeat baudrate timeout
       steering_scale' steering_offset' w =
     (case import_pyvesc e of
        Some err \<Rightarrow> (Inl (Library err), w @ [Import_pyvesc] @ import_failure_report err)
      | None \<Rightarrow>
          if \<not> (percent' \<le> 1 \<and> percent' \<ge> -1)
          then (Inl (AssertionError percent_message), w @ [Import_pyvesc])
          else
            (case pyvesc_VESC e serial_port has_sensor start_heartbeat baudrate timeout of
               Some err \<Rightarrow>
                 (Inl (Library err),
                  w @ [Import_pyvesc, VESC_open serial_port has_sensor start_heartbeat baudrate timeout]
                    @ open_failure_report serial_port err)
             | None \<Rightarrow>
                 (Inr \<lparr>steering_scale = steering_scale', steering_offset = steering_offset',
                       percent = percent', v = serial_port\<rparr>,
                  w @ [Import_pyvesc, VESC_open serial_port has_sensor start_heartbeat baudrate timeout])))"

text \<open>The two transport primitives of pyvesc that \<open>run\<close> uses: each is one write.\<close>

definition set_servo :: "string \<Rightarrow> real \<Rightarrow> ('p, 'l, 'x) world \<Rightarrow> ('p, 'l, 'x) world" where
  "set_servo h x w = w @ [Set_servo x]"

definition set_duty_cycle :: "string \<Rightarrow> real \<Rightarrow> ('p, 'l, 'x) world \<Rightarrow> ('p, 'l, 'x) world" where
  "set_duty_cycle h x w = w @ [Set_duty_cycle x]"

text \<open>\<open>VESC.run\<close>: returns the object as the call leaves it and the extended log.\<close>

definition run :: "VESC \<Rightarrow> real \<Rightarrow> real \<Rightarrow> ('p, 'l, 'x) world \<Rightarrow> VESC \<times> ('p, 'l, 'x) world" where
  "run self angle throttle w =
     (let w1 = set_servo (v self) ((angle * steering_scale self) + steering_offset self) w;
          w2 = set_duty_cycle (v self) (throttle * percent self) w1
      in (self, w2))"

section \<open>The script body\<close>

definition ord_q :: int where
  "ord_q = 113"

text \<open>How one pass through the body of \<open>while True\<close> ends.\<close>

datatype 'x step = Continue | Break | Raise "'x exn"

text \<open>
  One iteration of the loop, the \<open>n\<close>-th (lines 94 to 109). An exception raised by a
  \<open>toolbox\<close> function is not caught anywhere in the script, so it ends the iteration there.
\<close>

definition cycle ::
  "('p, 'l, 'x) env \<Rightarrow> VESC \<Rightarrow> nat \<Rightarrow> ('p, 'l, 'x) world \<Rightarrow>
   'x step \<times> VESC \<times> ('p, 'l, 'x) world" where
  "cycle e vesc n w =
     (let frame = qRgb_get e n;
          w1 = w @ [Queue_get frame, Yellow_segmentation frame]
      in case run_yellow_segmentation_pipeline e frame of
           Inl err \<Rightarrow> (Raise (Library err), vesc, w1)
         | Inr (overlay, steering_line) \<Rightarrow>
             (case (case steering_line of
                      None \<Rightarrow> (run_lane_detection_pipeline e frame, w1 @ [Lane_detection frame])
                    | Some _ \<Rightarrow> (Inr (overlay, steering_line), w1)) of
                (Inl err, w2) \<Rightarrow> (Raise (Library err), vesc, w2)
              | (Inr (overlay', steering_line'), w2) \<Rightarrow>
                  (let w3 = w2 @ [Steering_command steering_line' (shape1 frame)]
                   in case steering_command e steering_line' (shape1 frame) of
                        Inl err \<Rightarrow> (Raise (Library err), vesc, w3)
                      | Inr steering_cmd \<Rightarrow>
                          (let w4 = w3 @ [Print [PNum steering_cmd]];
                               (vesc', w5) = run vesc steering_cmd THROTTLE w4;
                               w6 = w5 @ [Add_weighted frame overlay', Resize, Imshow,
                                          Wait_key (waitKey e n)]
                           in if waitKey e n = ord_q then (Break, vesc', w6)
                              else (Continue, vesc', w6)))))"




section \<open>Reading the log\<close>

fun servo_commands :: "('p, 'l, 'x) world \<Rightarrow> real list" where
  "servo_commands [] = []"
| "servo_commands (Set_servo x # w) = x # servo_commands w"
| "servo_commands (_ # w) = servo_commands w"

fun duty_commands :: "('p, 'l, 'x) world \<Rightarrow> real list" where
  "duty_commands [] = []"
| "duty_commands (Set_duty_cycle x # w) = x # duty_commands w"
| "duty_commands (_ # w) = duty_commands w"

fun is_transport_op :: "('p, 'l, 'x) event \<Rightarrow> bool" where
  "is_transport_op (Set_servo _) = True"
| "is_transport_op (Set_duty_cycle _) = True"
| "is_transport_op (VESC_open _ _ _ _ _) = True"
| "is_transport_op _ = False"

fun is_actuation :: "('p, 'l, 'x) event \<Rightarrow> bool" where
  "is_actuation (Set_servo _) = True"
| "is_actuation (Set_duty_cycle _) = True"
| "is_actuation _ = False"

fun is_render :: "('p, 'l, 'x) event \<Rightarrow> bool" where
  "is_render (Add_weighted _ _) = True"
| "is_render Resize = True"
| "is_render Imshow = True"
| "is_render _ = False"

fun is_open :: "('p, 'l, 'x) event \<Rightarrow> bool" where
  "is_open (VESC_open _ _ _ _ _) = True"
| "is_open _ = False"

fun is_fallback :: "('p, 'l, 'x) event \<Rightarrow> bool" where
  "is_fallback (Lane_detection _) = True"
| "is_fallback _ = False"



section \<open>An example environment\<close>

text \<open>
  Test doubles for the collaborators, used to run the definitions on concrete inputs.
  Port \<open>/dev/ttyACM0\<close> opens, \<open>/dev/ttyACM1\<close> exists but refuses access, any other port is
  missing. On frame 0 the yellow segmentation finds no line and the lane detection finds
  one at -0.3, on frame 1 the segmentation finds a line at 0.1, on later frames it raises.
  The operator presses \<open>q\<close> during cycle 1. In \<open>never_stopped_env\<close> the operator never
  presses a key. In \<open>serial_exception_env\<close> the transport library raises one and the same
  exception, \<open>SerialException\<close>, for the port that refuses access and for a missing port.
\<close>

definition example_frame :: "nat \<Rightarrow> nat image" where
  "example_frame n = \<lparr>shape0 = 540, shape1 = 960, pixels = n\<rparr>"

definition example_env :: "(nat, real, string) env" where
  "example_env =
     \<lparr>import_pyvesc = None,
      pyvesc_VESC = (\<lambda>port has_sensor start_heartbeat baudrate timeout.
         if port = ''/dev/ttyACM0'' then None
         else if port = ''/dev/ttyACM1'' then Some ''[Errno 13] Permission denied''
         else Some ''[Errno 2] No such file or directory''),
      qRgb_get = example_frame,
      run_yellow_segmentation_pipeline = (\<lambda>frame.
         if pixels frame = 0 then Inr (frame, None)
         else if pixels frame = 1 then Inr (frame, Some 0.1)
         else Inl ''segmentation failed''),
      run_lane_detection_pipeline = (\<lambda>frame. Inr (frame, Some (-0.3))),
      steering_command = (\<lambda>line width. case line of None \<Rightarrow> Inl ''no line'' | Some x \<Rightarrow> Inr x),
      waitKey = (\<lambda>n. if n = 1 then 113 else -1)\<rparr>"

definition example_vesc :: VESC where
  "example_vesc = \<lparr>steering_scale = 1.0, steering_offset = 0.5, percent = 0.2, v = ''/dev/ttyACM0''\<rparr>"


definition serial_exception_env :: "(nat, real, string) env" where
  "serial_exception_env =
     example_env\<lparr>pyvesc_VESC := (\<lambda>port has_sensor start_heartbeat baudrate timeout.
        if port = ''/dev/ttyACM0'' then None else Some ''SerialException'')\<rparr>"

section \<open>Facts about the log readers\<close>

lemma servo_commands_append: "servo_commands (a @ b) = servo_commands a @ servo_commands b"
  by (induction a rule: servo_commands.induct) auto

lemma duty_commands_append: "duty_commands (a @ b) = duty_commands a @ duty_commands b"
  by (induction a rule: duty_commands.induct) auto


section \<open>VESC.run\<close>

lemma run_log:
  "run self angle throttle w =
     (self, w @ [Set_servo (angle * steering_scale self + steering_offset self),
                 Set_duty_cycle (throttle * percent self)])"
  by (simp add: run_def set_servo_def set_duty_cycle_def)

text \<open>
  C1: for every angle, steering scale and steering offset, \<open>run\<close> sends exactly one servo
  command, equal to \<open>angle * steering_scale + steering_offset\<close> with no clamping; angle 0.5
  with scale 1.0 and offset 0.5 gives 1.0, and angle -0.5 gives 0.0.
\<close>

theorem run_servo_command:
  "servo_commands (snd (run self angle throttle w))
     = servo_commands w @ [angle * steering_scale self + steering_offset self]
   \<and> servo_commands (snd (run \<lparr>steering_scale = 1.0, steering_offset = 0.5, percent = p, v = h\<rparr>
          0.5 throttle [])) = [1.0]
   \<and> servo_commands (snd (run \<lparr>steering_scale = 1.0, steering_offset = 0.5, percent = p, v = h\<rparr>
          (-0.5) throttle [])) = [0.0]"
  by (simp add: run_log servo_commands_append)

text \<open>
  C2: for every throttle in [-1,1] and every \<open>percent\<close> in [-1,1], \<open>run\<close> sends exactly
  one duty-cycle command, equal to \<open>throttle * percent\<close>, and its absolute value is at most
  the absolute value of \<open>percent\<close>.
\<close>

theorem run_power_command:
  assumes "-1 \<le> throttle" "throttle \<le> 1" "-1 \<le> percent self" "percent self \<le> 1"
  shows "duty_commands (snd (run self angle throttle w))
           = duty_commands w @ [throttle * percent self]
         \<and> \<bar>throttle * percent self\<bar> \<le> \<bar>percent self\<bar>"
proof -
  have "\<bar>throttle\<bar> \<le> 1" using assms by linarith
  then have "\<bar>throttle\<bar> * \<bar>percent self\<bar> \<le> 1 * \<bar>percent self\<bar>"
    by (intro mult_right_mono) simp_all
  then have "\<bar>throttle * percent self\<bar> \<le> \<bar>percent self\<bar>"
    by (simp add: abs_mult)
  then show ?thesis by (simp add: run_log duty_commands_append)
qed

theorem run_power_command_witness:
  "duty_commands (snd (run \<lparr>steering_scale = 1, steering_offset = 0.5, percent = 0.2,
       v = ''/dev/ttyACM0''\<rparr> 0 1 ([] :: (unit, unit, unit) world))) = [0.2]
   \<and> \<bar>1 * (0.2::real)\<bar> \<le> \<bar>0.2\<bar>"
  using run_power_command [of 1 "\<lparr>steering_scale = 1, steering_offset = 0.5, percent = 0.2,
       v = ''/dev/ttyACM0''\<rparr>" 0 "[]"]
  by simp

text \<open>
  C9: every call of \<open>run\<close> adds exactly two transport operations to the log, a set-servo
  followed by a set-duty-cycle.
\<close>

theorem run_two_operations:
  "\<exists>a b. snd (run self angle throttle w) = w @ [Set_servo a, Set_duty_cycle b]"
  by (simp add: run_log)

text \<open>
  C10: \<open>run\<close> leaves \<open>steering_scale\<close>, \<open>steering_offset\<close> and \<open>percent\<close> of the object as
  they were; everything it adds to the log is a write to the transport.
\<close>

theorem run_keeps_configuration:
  "steering_scale (fst (run self angle throttle w)) = steering_scale self
   \<and> steering_offset (fst (run self angle throttle w)) = steering_offset self
   \<and> percent (fst (run self angle throttle w)) = percent self
   \<and> take (length w) (snd (run self angle throttle w)) = w
   \<and> list_all is_actuation (drop (length w) (snd (run self angle throttle w)))"
  by (simp add: run_log)

section \<open>VESC.__init__\<close>

text \<open>
  C3: constructing a \<open>VESC\<close> with \<open>percent\<close> outside [-1,1] fails, and the log it leaves
  holds no transport operation: the transport is never opened. Once \<open>import pyvesc\<close> has
  succeeded the failure is the \<open>AssertionError\<close> of the range check (a missing pyvesc
  raises its own exception before the check is reached). Every \<open>percent\<close> in [-1,1], both
  bounds included, is accepted: with pyvesc present and a port that opens, construction
  returns the object.
\<close>

theorem init_percent_range:
  "(p < -1 \<or> 1 < p \<longrightarrow>
      (\<exists>x. fst (VESC_init e port p hs hb br t sc so w) = Inl x)
      \<and> take (length w) (snd (VESC_init e port p hs hb br t sc so w)) = w
      \<and> filter is_transport_op (drop (length w) (snd (VESC_init e port p hs hb br t sc so w))) = []
      \<and> (import_pyvesc e = None \<longrightarrow>
            VESC_init e port p hs hb br t sc so w
              = (Inl (AssertionError percent_message), w @ [Import_pyvesc])))
   \<and> (-1 \<le> p \<and> p \<le> 1 \<and> import_pyvesc e = None \<and> pyvesc_VESC e port hs hb br t = None \<longrightarrow>
        VESC_init e port p hs hb br t sc so w
          = (Inr \<lparr>steering_scale = sc, steering_offset = so, percent = p, v = port\<rparr>,
             w @ [Import_pyvesc, VESC_open port hs hb br t]))"
  by (auto simp: VESC_init_def import_failure_report_def split: option.splits)

theorem init_percent_range_witness:
  "VESC_init example_env ''/dev/ttyACM0'' 1.3 False True 115200 0.05 1.0 0.5 []
     = (Inl (AssertionError percent_message), [Import_pyvesc])
   \<and> VESC_init example_env ''/dev/ttyACM0'' (-1.0) False True 115200 0.05 1.0 0.5 []
     = (Inr \<lparr>steering_scale = 1.0, steering_offset = 0.5, percent = -1.0, v = ''/dev/ttyACM0''\<rparr>,
        [Import_pyvesc, VESC_open ''/dev/ttyACM0'' False True 115200 0.05])
   \<and> VESC_init example_env ''/dev/ttyACM0'' 1 False True 115200 0.05 1.0 0.5 []
     = (Inr \<lparr>steering_scale = 1.0, steering_offset = 0.5, percent = 1, v = ''/dev/ttyACM0''\<rparr>,
        [Import_pyvesc, VESC_open ''/dev/ttyACM0'' False True 115200 0.05])"
  using init_percent_range [of "1.3" example_env "''/dev/ttyACM0''" False True 115200 "0.05" "1.0" "0.5" "[]"]
        init_percent_range [of "-1.0" example_env "''/dev/ttyACM0''" False True 115200 "0.05" "1.0" "0.5" "[]"]
        init_percent_range [of 1 example_env "''/dev/ttyACM0''" False True 115200 "0.05" "1.0" "0.5" "[]"]
  by (simp add: example_env_def)

text \<open>
  C8: when opening the transport fails, whatever the cause, construction fails by
  re-raising unchanged the exception the transport raised. The constructor does not
  classify the failure: before re-raising it prints the same hint for every cause, how to
  fix permission denied errors with the \<open>chmod\<close> command for the port. The transport is
  opened once: there is no retry.
\<close>

theorem init_open_failure_reraised:
  assumes "import_pyvesc e = None" and "-1 \<le> p" and "p \<le> 1"
      and "pyvesc_VESC e port hs hb br t = Some err"
  shows "VESC_init e port p hs hb br t sc so w
           = (Inl (Library err),
              w @ [Import_pyvesc, VESC_open port hs hb br t] @ open_failure_report port err)
       \<and> filter is_open (drop (length w) (snd (VESC_init e port p hs hb br t sc so w)))
           = [VESC_open port hs hb br t]
       \<and> Print [PStr (nl 2 @ ''to fix permission denied errors, try running the following command:'')]
           \<in> set (drop (length w) (snd (VESC_init e port p hs hb br t sc so w)))
       \<and> Print [PStr (''sudo chmod a+rw '' @ port), PStr (nl 4)]
           \<in> set (drop (length w) (snd (VESC_init e port p hs hb br t sc so w)))"
  using assms by (simp add: VESC_init_def open_failure_report_def)

theorem init_open_failure_reraised_witness:
  "fst (VESC_init example_env ''/dev/ttyACM1'' 0.2 False True 115200 0.05 1.0 0.5 [])
     = Inl (Library ''[Errno 13] Permission denied'')
   \<and> fst (VESC_init serial_exception_env ''/dev/ttyACM7'' 0.2 False True 115200 0.05 1.0 0.5 [])
     = Inl (Library ''SerialException'')
   \<and> filter is_open
        (snd (VESC_init serial_exception_env ''/dev/ttyACM7'' 0.2 False True 115200 0.05 1.0 0.5 []))
     = [VESC_open ''/dev/ttyACM7'' False True 115200 0.05]
   \<and> Print [PStr ''sudo chmod a+rw /dev/ttyACM7'', PStr (nl 4)]
       \<in> set (snd (VESC_init serial_exception_env ''/dev/ttyACM7'' 0.2 False True 115200 0.05 1.0 0.5 []))"
proof -
  have imp: "import_pyvesc example_env = None"
    by (simp add: example_env_def)
  have imp': "import_pyvesc serial_exception_env = None"
    by (simp add: serial_exception_env_def example_env_def)
  have refused: "pyvesc_VESC example_env ''/dev/ttyACM1'' False True 115200 0.05
                   = Some ''[Errno 13] Permission denied''"
    by (simp add: example_env_def)
  have missing: "pyvesc_VESC serial_exception_env ''/dev/ttyACM7'' False True 115200 0.05
                   = Some ''SerialException''"
    by (simp add: serial_exception_env_def)
  have lo: "-1 \<le> (0.2::real)" and hi: "(0.2::real) \<le> 1" by simp_all
  show ?thesis
    using init_open_failure_reraised [OF imp lo hi refused, of "1.0" "0.5" "[]"]
          init_open_failure_reraised [OF imp' lo hi missing, of "1.0" "0.5" "[]"]
    by (simp add: open_failure_report_def)
qed

text \<open>
  C8 as the specification words it does not hold: on the port that refuses access
  and on a missing port construction fails with the same error, and the hint printed for
  the missing port is the one about permissions.
\<close>

theorem init_open_failure_counterexample:
  "fst (VESC_init serial_exception_env ''/dev/ttyACM1'' 0.2 False True 115200 0.05 1.0 0.5 [])
     = Inl (Library ''SerialException'')
   \<and> fst (VESC_init serial_exception_env ''/dev/ttyACM7'' 0.2 False True 115200 0.05 1.0 0.5 [])
     = Inl (Library ''SerialException'')
   \<and> Print [PStr (nl 2 @ ''to fix permission denied errors, try running the following command:'')]
       \<in> set (snd (VESC_init serial_exception_env ''/dev/ttyACM7'' 0.2 False True 115200 0.05 1.0 0.5 []))"
  by (simp add: VESC_init_def open_failure_report_def serial_exception_env_def example_env_def)

section \<open>One cycle of the loop\<close>

text \<open>The iteration, path by path, with the log it writes.\<close>

lemma cycle_cases:
  "cycle e vesc n w =
     (let frame = qRgb_get e n;
          pre = [Queue_get frame, Yellow_segmentation frame]
      in case run_yellow_segmentation_pipeline e frame of
           Inl err \<Rightarrow> (Raise (Library err), vesc, w @ pre)
         | Inr (overlay, Some l) \<Rightarrow>
             (case steering_command e (Some l) (shape1 frame) of
                Inl err \<Rightarrow> (Raise (Library err), vesc, w @ pre @ [Steering_command (Some l) (shape1 frame)])
              | Inr c \<Rightarrow> (if waitKey e n = ord_q then Break else Continue, vesc,
                   w @ pre @ [Steering_command (Some l) (shape1 frame), Print [PNum c],
                     Set_servo (c * steering_scale vesc + steering_offset vesc),
                     Set_duty_cycle (THROTTLE * percent vesc),
                     Add_weighted frame overlay, Resize, Imshow, Wait_key (waitKey e n)]))
         | Inr (overlay, None) \<Rightarrow>
             (case run_lane_detection_pipeline e frame of
                Inl err \<Rightarrow> (Raise (Library err), vesc, w @ pre @ [Lane_detection frame])
              | Inr (overlay', line') \<Rightarrow>
                 (case steering_command e line' (shape1 frame) of
                    Inl err \<Rightarrow> (Raise (Library err), vesc,
                       w @ pre @ [Lane_detection frame, Steering_command line' (shape1 frame)])
                  | Inr c \<Rightarrow> (if waitKey e n = ord_q then Break else Continue, vesc,
                       w @ pre @ [Lane_detection frame, Steering_command line' (shape1 frame),
                         Print [PNum c],
                         Set_servo (c * steering_scale vesc + steering_offset vesc),
                         Set_duty_cycle (THROTTLE * percent vesc),
                         Add_weighted frame overlay', Resize, Imshow, Wait_key (waitKey e n)]))))"
  by (simp add: cycle_def run_log Let_def split: sum.splits option.splits prod.splits)


text \<open>
  C4: in a cycle the lane detection (the fallback) is called exactly when the yellow
  segmentation (the primary) returned no steering line, once and on the same frame. It is
  not called when the primary returned a line, nor when the primary raised: then the cycle
  ends with the primary's exception.
\<close>

theorem fallback_iff_primary_absent:
  "filter is_fallback (drop (length w) (snd (snd (cycle e vesc n w))))
     = (case run_yellow_segmentation_pipeline e (qRgb_get e n) of
          Inr (overlay, None) \<Rightarrow> [Lane_detection (qRgb_get e n)]
        | _ \<Rightarrow> [])
   \<and> (\<forall>err. run_yellow_segmentation_pipeline e (qRgb_get e n) = Inl err
          \<longrightarrow> fst (cycle e vesc n w) = Raise (Library err))"
  by (simp add: cycle_cases Let_def split: sum.splits option.splits prod.splits)

theorem fallback_iff_primary_absent_witness:
  "filter is_fallback (snd (snd (cycle example_env example_vesc 0 [])))
     = [Lane_detection (example_frame 0)]
   \<and> filter is_fallback (snd (snd (cycle example_env example_vesc 1 []))) = []
   \<and> filter is_fallback (snd (snd (cycle example_env example_vesc 2 []))) = []
   \<and> fst (cycle example_env example_vesc 2 []) = Raise (Library ''segmentation failed'')"
  using fallback_iff_primary_absent [of "[]" example_env example_vesc 0]
        fallback_iff_primary_absent [of "[]" example_env example_vesc 1]
        fallback_iff_primary_absent [of "[]" example_env example_vesc 2]
  by (simp add: example_env_def example_frame_def)

text \<open>
  C7: in a cycle that runs to its end, the events that actuate or render are, in order,
  the set-servo and the set-duty-cycle of \<open>run\<close> and then the blend, the resize and the
  display of the debug view: actuation is never after rendering. A cycle cut short by an
  exception has neither.
\<close>

theorem actuation_before_rendering:
  "case fst (cycle e vesc n w) of
     Raise x \<Rightarrow>
       filter (\<lambda>ev. is_actuation ev \<or> is_render ev)
         (drop (length w) (snd (snd (cycle e vesc n w)))) = []
   | _ \<Rightarrow>
       (\<exists>a b ov. filter (\<lambda>ev. is_actuation ev \<or> is_render ev)
                    (drop (length w) (snd (snd (cycle e vesc n w))))
                 = [Set_servo a, Set_duty_cycle b, Add_weighted (qRgb_get e n) ov, Resize, Imshow])"
  by (simp add: cycle_cases Let_def split: sum.splits option.splits prod.splits)

theorem actuation_before_rendering_witness:
  "filter (\<lambda>ev. is_actuation ev \<or> is_render ev) (snd (snd (cycle example_env example_vesc 0 [])))
     = [Set_servo 0.2, Set_duty_cycle 0.03, Add_weighted (example_frame 0) (example_frame 0),
        Resize, Imshow]
   \<and> filter (\<lambda>ev. is_actuation ev \<or> is_render ev)
        (snd (snd (cycle example_env example_vesc 2 []))) = []"
  using actuation_before_rendering [where e = example_env and vesc = example_vesc and n = 0 and w = "[]"]
        actuation_before_rendering [where e = example_env and vesc = example_vesc and n = 2 and w = "[]"]
  by (simp add: cycle_cases Let_def example_env_def example_frame_def example_vesc_def
      THROTTLE_def ord_q_def)

section \<open>The loop\<close>












end
